theory Spec2Isabelle
  imports Main "HOL-Library.Word"
begin

section \<open>JavaScript values\<close>

text \<open>
  A JavaScript string is a sequence of 16-bit code units. Literals of the source are
  written \<open>lit ''...''\<close>.
\<close>

type_synonym jsstring = "16 word list"

definition lit :: "string \<Rightarrow> jsstring" where
  "lit s = map (\<lambda>c. of_char c) s"

definition backslash :: "16 word" where
  "backslash = 92"

text \<open>
  The values that travel through the pagelet without being inspected: identifiers,
  template data, RPC arguments, errors. A function or an object is known by its identity
  only. Numbers carried as arguments are integers here; the one number the source computes
  with, the RPC counter, is treated separately below.
\<close>

datatype jsval =
    Undefined
  | Null
  | Boolean bool
  | Number int
  | String jsstring
  | Function nat
  | Object nat

fun truthy :: "jsval \<Rightarrow> bool" where
  "truthy Undefined = False"
| "truthy Null = False"
| "truthy (Boolean b) = b"
| "truthy (Number n) = (n \<noteq> 0)"
| "truthy (String s) = (s \<noteq> [])"
| "truthy (Function k) = True"
| "truthy (Object k) = True"






text \<open>
  \<open>String.prototype.substring\<close>: both indices are clamped to the string and swapped
  when the first exceeds the second.
\<close>

definition substring :: "jsstring \<Rightarrow> int \<Rightarrow> int \<Rightarrow> jsstring" where
  "substring s start finish =
     (let len = int (length s);
          a = max 0 (min start len);
          b = max 0 (min finish len);
          from = min a b;
          to = max a b
      in take (nat (to - from)) (drop (nat from) s))"

text \<open>
  \<open>.replace(/\\([\s\S]|$)/g, '$1')\<close>: scanning from the left, a backslash together with
  the code unit after it is replaced by that code unit; a backslash at the very end is
  replaced by nothing.
\<close>

fun replace_escapes :: "jsstring \<Rightarrow> jsstring" where
  "replace_escapes [] = []"
| "replace_escapes [c] = (if c = backslash then [] else [c])"
| "replace_escapes (c # d # cs) =
     (if c = backslash then d # replace_escapes cs else c # replace_escapes (d # cs))"

section \<open>The document\<close>

text \<open>
  The elements the pagelet touches are kept in a store indexed by reference. Of an element
  the model keeps its attributes, whether it has a parent node, and its child nodes. A
  child is a comment (node type 8, with its value), the scratch \<open>div\<close> of \<open>render\<close>, or
  any other node. Elements nested in a subtree are not tracked with it.
\<close>

datatype node = Comment jsstring | Scratch_div | Other nat

record element =
  attributes :: "(jsstring \<times> jsstring) list"
  parentNode :: bool
  childNodes :: "node list"

record dom =
  elem :: "nat \<Rightarrow> element"
  everything :: "nat list"

text \<open>
  What the browser supplies: \<open>document.querySelectorAll\<close> when it exists (\<open>None\<close> in a
  browser without it), a function of the current document and the selector text, and the
  HTML parser behind \<open>innerHTML\<close>.
\<close>

record browser =
  querySelectorAll :: "(dom \<Rightarrow> jsstring \<Rightarrow> nat list) option"
  innerHTML :: "jsstring \<Rightarrow> node list"

section \<open>The pagelet and its surroundings\<close>

text \<open>
  The properties of an instance that the source assigns or reads, and the properties the
  source puts on \<open>Pagelet.prototype\<close> together with those of EventEmitter3.
\<close>

definition own_properties :: "jsstring list" where
  "own_properties = map lit
     [''orchestrate'', ''stream'', ''pipe'', ''sandbox'', ''placeholders'', ''id'', ''name'',
      ''substream'', ''css'', ''js'', ''run'', ''rpc'', ''data'', ''container'', ''timeout'',
      ''code'', ''prepare'']"

definition Pagelet_prototype :: "jsstring list" where
  "Pagelet_prototype = map lit
     [''constructor'', ''configure'', ''submit'', ''post'', ''processor'', ''initialise'',
      ''broadcast'', ''$'', ''render'', ''parse'', ''destroy'',
      ''listeners'', ''emit'', ''on'', ''once'', ''removeListener'', ''removeAllListeners'',
      ''off'', ''addListener'', ''setMaxListeners'', ''_events'']"

text \<open>
  An RPC method name is installed as a property of the instance. A name that is one of the
  instance's own data properties would overwrite that property with the stub; such names
  are outside the model, so the type of method names leaves them out.
\<close>

typedef method_name = "{s :: jsstring. s \<notin> set own_properties}"
proof
  show "[] \<in> {s :: jsstring. s \<notin> set own_properties}"
    by (simp add: own_properties_def lit_def)
qed

text \<open>The configuration input of \<open>configure\<close>, typed as the server sends it.\<close>

record config =
  d_id :: jsval
  d_remove :: jsval
  d_css :: "jsstring list option"
  d_js :: "jsstring list option"
  d_run :: jsval
  d_rpc :: "method_name list option"
  d_data :: jsval
  d_timeout :: jsval

text \<open>An argument handed to a listener: a plain value, the pagelet itself, or the configuration.\<close>

datatype arg = Val jsval | This | Data config

text \<open>
  The listeners of the pagelet's EventEmitter. A listener is a caller-supplied function or
  the \<open>destroy\<close> hook that \<open>submit\<close> installs (tagged with the identity of its
  \<open>submission\<close> closure).
\<close>

datatype handler = Callback nat | Destroy_hook nat

datatype listener = Listener (l_event: jsstring) (l_fn: handler) (l_once: bool)

datatype scope = Pagelet_scope | Page_scope

datatype envelope =
    Rpc_request jsstring "jsval list" jsstring
  | End_packet

text \<open>
  Every call that leaves the pagelet is recorded, in order: emissions on the pagelet's and
  on the page's EventEmitter, calls of caller-supplied functions, the submit listeners on
  the placeholders, the Substream, the orchestrator, the sandbox, the asset loader and the
  pool.
\<close>

datatype effect =
    Emitted scope jsstring "arg list"
  | Called nat "arg list"
  | Add_listener nat nat
  | Remove_listener nat nat
  | Stream_substream nat jsstring
  | Substream_on_data nat
  | Substream_write nat envelope
  | Substream_end nat envelope
  | Orchestrate_write jsstring
  | Sandbox_create nat
  | Sandbox_kill nat
  | Async_each "jsstring list" jsval
  | Pipe_load jsstring
  | Pipe_free

text \<open>
  The properties of a pagelet instance. \<open>None\<close> stands for \<open>undefined\<close> or \<open>null\<close>.
  \<open>stubs\<close> holds the generated RPC methods: the method name is mapped to the \<open>counter\<close>
  variable of its closure. \<open>code\<close> is read by \<open>initialise\<close> and assigned nowhere.
\<close>

record pagelet =
  placeholders :: "nat list option"
  id' :: jsval
  name :: "jsstring option"
  substream :: "nat option"
  css :: "jsstring list option"
  js :: "jsstring list option"
  run :: jsval
  rpc :: "method_name list option"
  data :: jsval
  container :: "nat option"
  timeout :: jsval
  code :: jsval
  stubs :: "method_name \<rightharpoonup> nat"
  listeners :: "listener list"

text \<open>
  The state a pagelet runs in: the instance, the document, the browser, \<open>pipe.IEV\<close>
  (\<open>None\<close> when it is no number), the property names the instance inherits from
  \<open>Object.prototype\<close>, a supply of fresh identities, and the record of effects.
\<close>

record world =
  this :: pagelet
  document :: dom
  host :: browser
  IEV :: "int option"
  inherited :: "jsstring list"
  fresh :: nat
  trace :: "effect list"

datatype error = TypeError | Outside_model

datatype 'a completion = Returns 'a | Throws error

text \<open>\<open>new Pagelet(pipe)\<close>: nothing but the references to the pipe is set.\<close>

definition Pagelet :: pagelet where
  "Pagelet =
     \<lparr>placeholders = None, id' = Undefined, name = None, substream = None, css = None,
      js = None, run = Undefined, rpc = None, data = Undefined, container = None,
      timeout = Undefined, code = Undefined, stubs = Map.empty, listeners = []\<rparr>"

definition logged :: "effect \<Rightarrow> world \<Rightarrow> world" where
  "logged e w = w\<lparr>trace := trace w @ [e]\<rparr>"

definition new_effects :: "world \<Rightarrow> world \<Rightarrow> effect list" where
  "new_effects w w' = drop (length (trace w)) (trace w')"

section \<open>Collaborators that live outside this file\<close>

text \<open>
  Modelled from the spec: \<open>collection.array\<close> of \<open>./collection\<close>, which is not part of
  this file. The lists of a configuration are optional (spec 6): an absent list is the
  empty array, a list is itself.
\<close>

definition array :: "'a list option \<Rightarrow> 'a list" where
  "array xs = (case xs of None \<Rightarrow> [] | Some ys \<Rightarrow> ys)"

text \<open>
  Modelled from the spec: \<open>collection.each\<close> of \<open>./collection\<close>, which is not part of
  this file. It calls the iterator on the members in order; over an absent collection (a
  configuration without RPC methods, spec 6) it does nothing.
\<close>

definition each :: "'a list option \<Rightarrow> ('a \<Rightarrow> 's \<Rightarrow> 's) \<Rightarrow> 's \<Rightarrow> 's" where
  "each xs f s = fold f (array xs) s"

text \<open>
  EventEmitter3, the library the pagelet inherits from: \<open>emit\<close> runs the listeners of the
  event in the order they were added and drops the one-shot ones; it does not throw when
  nobody listens, also for \<open>error\<close>. A caller-supplied listener is recorded as called
  with its arguments; what it does is its own business, and it is taken to return without
  calling back into the pagelet. The hook of \<open>submit\<close> removes the submit listener from
  every placeholder.
\<close>

definition listener_effects :: "pagelet \<Rightarrow> handler \<Rightarrow> arg list \<Rightarrow> effect list" where
  "listener_effects p h args =
     (case h of
        Callback k \<Rightarrow> [Called k args]
      | Destroy_hook k \<Rightarrow> map (\<lambda>root. Remove_listener root k) (array (placeholders p)))"

definition emit :: "jsstring \<Rightarrow> arg list \<Rightarrow> world \<Rightarrow> world" where
  "emit ev args w =
     (let p = this w;
          fired = filter (\<lambda>l. l_event l = ev) (listeners p)
      in w\<lparr>this := p\<lparr>listeners := filter (\<lambda>l. \<not> (l_event l = ev \<and> l_once l)) (listeners p)\<rparr>,
            trace := trace w @ Emitted Pagelet_scope ev args
                       # concat (map (\<lambda>l. listener_effects p (l_fn l) args) fired)\<rparr>)"

definition once :: "jsstring \<Rightarrow> handler \<Rightarrow> world \<Rightarrow> world" where
  "once ev h w = w\<lparr>this := (this w)\<lparr>listeners := listeners (this w) @ [Listener ev h True]\<rparr>\<rparr>"


section \<open>The source\<close>

subsection \<open>broadcast\<close>

definition name_text :: "jsstring option \<Rightarrow> jsstring" where
  "name_text n = (case n of None \<Rightarrow> lit ''undefined'' | Some s \<Rightarrow> s)"

definition broadcast :: "jsstring \<Rightarrow> arg list \<Rightarrow> world \<Rightarrow> world" where
  "broadcast ev args w =
     (let w1 = emit ev args w
      in logged (Emitted Page_scope (name_text (name (this w1)) @ lit ''::'' @ ev) (This # args)) w1)"

subsection \<open>\<open>$\<close>\<close>

text \<open>
  With \<open>querySelectorAll\<close> the browser answers the selector \<open>[attribute="value"]\<close>
  (34 is the double quote); without it every element of the document is compared with
  \<open>===\<close>, which an undefined value never passes.
\<close>

definition dollar :: "browser \<Rightarrow> dom \<Rightarrow> jsstring \<Rightarrow> jsstring option \<Rightarrow> nat list" where
  "dollar b d attribute v =
     (case querySelectorAll b of
        Some qsa \<Rightarrow> qsa d (lit ''['' @ attribute @ lit ''='' @ [34] @ name_text v @ [34] @ lit '']'')
      | None \<Rightarrow>
          filter (\<lambda>i. v \<noteq> None \<and> map_of (attributes (elem d i)) attribute = v) (everything d))"

subsection \<open>render\<close>

text \<open>\<open>while (root.firstChild) root.removeChild(root.firstChild)\<close>\<close>

fun remove_children :: "node list \<Rightarrow> node list" where
  "remove_children [] = []"
| "remove_children (c # cs) = remove_children cs"

text \<open>\<open>while (div.firstChild) fragment.appendChild(div.firstChild)\<close>\<close>

fun move_children :: "node list \<Rightarrow> node list \<Rightarrow> node list" where
  "move_children [] fragment = fragment"
| "move_children (c # cs) fragment = move_children cs (fragment @ [c])"

definition render_root :: "jsstring \<Rightarrow> nat \<Rightarrow> world \<Rightarrow> world" where
  "render_root html root w =
     (let borked = (case IEV w of None \<Rightarrow> False | Some v \<Rightarrow> v < 7);
          d = document w;
          e = elem d root;
          cleared = remove_children (childNodes e);
          with_div = (if borked then cleared @ [Scratch_div] else cleared);
          fragment = move_children (innerHTML (host w) html) [];
          appended = with_div @ fragment;
          final = (if borked then remove1 Scratch_div appended else appended)
      in w\<lparr>document := d\<lparr>elem := (elem d)(root := e\<lparr>childNodes := final\<rparr>)\<rparr>\<rparr>)"

text \<open>
  \<open>this.placeholders.length\<close> is read first: on an instance whose placeholders are
  undefined or null that read throws.
\<close>

definition render :: "jsstring option \<Rightarrow> world \<Rightarrow> bool completion \<times> world" where
  "render html w =
     (case placeholders (this w) of
        None \<Rightarrow> (Throws TypeError, w)
      | Some roots \<Rightarrow>
          (case html of
             None \<Rightarrow> (Returns False, w)
           | Some h \<Rightarrow>
               if roots = [] \<or> h = [] then (Returns False, w)
               else (Returns True,
                     broadcast (lit ''render'') [Val (String h)]
                       (each (Some roots) (render_root h) w))))"

subsection \<open>parse\<close>

definition parse :: "world \<Rightarrow> jsstring option completion" where
  "parse w =
     (case dollar (host w) (document w) (lit ''data-pagelet-fragment'') (name (this w)) of
        [] \<Rightarrow> Throws TypeError
      | node # _ \<Rightarrow>
          (case childNodes (elem (document w) node) of
             Comment comment # _ \<Rightarrow>
               Returns (Some (replace_escapes (substring comment 1 (int (length comment) - 1))))
           | _ \<Rightarrow> Returns None))"

subsection \<open>initialise\<close>

text \<open>
  With client code in \<open>this.code\<close> the source goes on to
  \<open>this.sandbox(this.prepare(this.code))\<close>: the file defines no \<open>prepare\<close> and
  \<open>this.sandbox\<close> is the Fortress instance, not a function, so that call throws.
\<close>

definition initialise :: "world \<Rightarrow> unit completion \<times> world" where
  "initialise w =
     (let w1 = broadcast (lit ''initialise'') [] w
      in if \<not> truthy (code (this w1)) then (Returns (), w1) else (Throws TypeError, w1))"

subsection \<open>destroy\<close>

text \<open>
  The callback that empties the placeholders is a function expression named \<open>remove\<close>,
  so inside it \<open>remove\<close> is the callback itself and hides the parameter of \<open>destroy\<close>:
  the test \<open>remove && root.parentNode\<close> comes down to \<open>root.parentNode\<close>.
\<close>

definition destroy_root :: "nat \<Rightarrow> world \<Rightarrow> world" where
  "destroy_root root w =
     (let d = document w;
          e = elem d root
      in if parentNode e
         then w\<lparr>document := d\<lparr>elem := (elem d)(root := e\<lparr>parentNode := False\<rparr>),
                               everything := removeAll root (everything d)\<rparr>\<rparr>
         else w\<lparr>document :=
                  d\<lparr>elem := (elem d)(root := e\<lparr>childNodes := remove_children (childNodes e)\<rparr>)\<rparr>\<rparr>)"

definition in_prototype :: "world \<Rightarrow> method_name \<Rightarrow> bool" where
  "in_prototype w method \<longleftrightarrow> Rep_method_name method \<in> set (Pagelet_prototype @ inherited w)"

definition nuke :: "method_name \<Rightarrow> world \<Rightarrow> world" where
  "nuke method w =
     (if in_prototype w method then w
      else w\<lparr>this := (this w)\<lparr>stubs := (stubs (this w))(method := None)\<rparr>\<rparr>)"

definition destroy :: "jsval \<Rightarrow> world \<Rightarrow> world" where
  "destroy remove w =
     (let w1 = emit (lit ''destroy'') [] w;
          w2 = (case placeholders (this w1) of
                  None \<Rightarrow> w1
                | Some roots \<Rightarrow> each (Some roots) destroy_root w1);
          w3 = (case rpc (this w2) of
                  None \<Rightarrow> w2
                | Some methods \<Rightarrow> if methods = [] then w2 else each (Some methods) nuke w2);
          w4 = (case container (this w3) of
                  None \<Rightarrow> w3
                | Some c \<Rightarrow> logged (Sandbox_kill c) w3);
          w5 = w4\<lparr>this := (this w4)\<lparr>placeholders := None, container := None\<rparr>\<rparr>;
          w6 = (case substream (this w5) of
                  None \<Rightarrow> w5
                | Some s \<Rightarrow> logged (Substream_end s End_packet) w5)
      in logged Pipe_free w6)"

subsection \<open>submit\<close>

text \<open>
  Of \<open>submit\<close> the model keeps what the lifecycle sees: the \<open>submit\<close> listener put on
  every placeholder and the one-shot \<open>destroy\<close> hook that takes it off again. The
  handling of a form post itself (\<open>submission\<close>, \<open>post\<close>) is left out.
\<close>

definition submit :: "world \<Rightarrow> world" where
  "submit w =
     (let k = fresh w;
          w1 = each (placeholders (this w)) (\<lambda>root. logged (Add_listener root k))
                 (w\<lparr>fresh := Suc k\<rparr>)
      in once (lit ''destroy'') (Destroy_hook k) w1)"

subsection \<open>The generated RPC methods\<close>

definition rpc_stub :: "method_name \<Rightarrow> world \<Rightarrow> world" where
  "rpc_stub method w =
     (if in_prototype w method then w
      else w\<lparr>this := (this w)\<lparr>stubs := (stubs (this w))(method \<mapsto> 0)\<rparr>\<rparr>)"



subsection \<open>processor\<close>



subsection \<open>configure\<close>

text \<open>
  What reaches the asset loader while a loading phase runs, in the order of arrival: an
  asset has loaded, an asset has failed with an error, the shared deadline has passed
  (with the error the loader makes of it).
\<close>

datatype signal = Asset_loaded | Asset_failed nat | Deadline nat

text \<open>
  Modelled from the spec: \<open>async.each\<close> of \<open>./async\<close>, which is not part of this file,
  at the start of a phase (the AssetLoader of spec 4.4): it launches all downloads at
  once, each through the iterator \<open>download\<close> of \<open>configure\<close>, which calls \<open>pipe.load\<close>.
\<close>

definition async_each :: "jsstring list \<Rightarrow> jsval \<Rightarrow> world \<Rightarrow> world" where
  "async_each assets deadline w =
     fold (\<lambda>asset. logged (Pipe_load asset)) assets (logged (Async_each assets deadline) w)"

text \<open>
  Modelled from the spec: how a phase of \<open>async.each\<close> over \<open>n\<close> assets ends (spec 4.4).
  The first asset that fails, or the deadline, ends the phase with that single error,
  whatever arrives later; the phase succeeds, with no error, once every asset has
  loaded. \<open>None\<close> is a phase that has not ended: the callback has not been called.
\<close>

fun async_result :: "nat \<Rightarrow> signal list \<Rightarrow> jsval option" where
  "async_result 0 signals = Some Undefined"
| "async_result (Suc n) [] = None"
| "async_result (Suc n) (Asset_loaded # signals) = async_result n signals"
| "async_result (Suc n) (Asset_failed e # signals) = Some (Object e)"
| "async_result (Suc n) (Deadline e # signals) = Some (Object e)"

text \<open>The callback \<open>done\<close> that \<open>configure\<close> hands to \<open>async.each\<close>.\<close>

definition done_callback :: "jsval \<Rightarrow> world \<Rightarrow> unit completion \<times> world" where
  "done_callback err w =
     (if truthy err then (Returns (), emit (lit ''error'') [Val err] w)
      else
        (let w1 = emit (lit ''loaded'') [] w
         in case parse w1 of
              Throws e \<Rightarrow> (Throws e, w1)
            | Returns html \<Rightarrow>
                (case render html w1 of
                   (Throws e, w2) \<Rightarrow> (Throws e, w2)
                 | (Returns ok, w2) \<Rightarrow> initialise w2)))"

definition configure :: "jsstring \<Rightarrow> config \<Rightarrow> world \<Rightarrow> world" where
  "configure name' data' w =
     (let w1 = w\<lparr>this := (this w)
                 \<lparr>placeholders :=
                    Some (dollar (host w) (document w) (lit ''data-pagelet'') (Some name')),
                  id' := d_id data',
                  name := Some name'\<rparr>\<rparr>
      in if truthy (d_remove data') then destroy (Boolean True) w1
         else
           (let w2 = submit w1;
                s = fresh w2;
                w3 = logged (Orchestrate_write name')
                       (logged (Substream_on_data s)
                          (logged (Stream_substream s name')
                             (w2\<lparr>fresh := Suc s, this := (this w2)\<lparr>substream := Some s\<rparr>\<rparr>)));
                c = fresh w3;
                w4 = logged (Sandbox_create c)
                       (w3\<lparr>fresh := Suc c,
                           this := (this w3)
                             \<lparr>css := Some (array (d_css data')),
                              js := Some (array (d_js data')),
                              run := d_run data',
                              rpc := d_rpc data',
                              data := d_data data',
                              container := Some c\<rparr>\<rparr>);
                w5 = w4\<lparr>this := (this w4)
                            \<lparr>timeout := (if truthy (d_timeout data') then d_timeout data'
                                         else Number (25 * 1000))\<rparr>\<rparr>;
                w6 = each (rpc (this w5)) rpc_stub w5;
                w7 = broadcast (lit ''configured'') [Data data'] w6
            in async_each (array (css (this w7)) @ array (js (this w7))) (timeout (this w7)) w7))"

text \<open>
  The loading phase that \<open>configure\<close> started, run to the end the signals give it:
  \<open>async.each\<close> calls \<open>done\<close> once the phase has ended, and not before.
\<close>

definition loading_phase :: "signal list \<Rightarrow> world \<Rightarrow> unit completion \<times> world" where
  "loading_phase signals w =
     (case async_result (length (array (css (this w)) @ array (js (this w)))) signals of
        None \<Rightarrow> (Returns (), w)
      | Some err \<Rightarrow> done_callback err w)"


subsection \<open>Sequences of calls\<close>




section \<open>Reading the record of effects\<close>

fun is_emission :: "effect \<Rightarrow> bool" where
  "is_emission (Emitted s ev args) = True"
| "is_emission e = False"

fun is_call :: "effect \<Rightarrow> bool" where
  "is_call (Called k args) = True"
| "is_call e = False"

text \<open>The caller-supplied functions that listen for an event, in the order they were added.\<close>

fun callbacks :: "jsstring \<Rightarrow> listener list \<Rightarrow> nat list" where
  "callbacks ev [] = []"
| "callbacks ev (Listener ev' (Callback c) single # ls) =
     (if ev' = ev then c # callbacks ev ls else callbacks ev ls)"
| "callbacks ev (Listener ev' (Destroy_hook k) single # ls) = callbacks ev ls"

text \<open>Releases: the sandbox container killed, the instance handed to the pool.\<close>

fun releases :: "effect \<Rightarrow> bool" where
  "releases (Sandbox_kill c) = True"
| "releases Pipe_free = True"
| "releases e = False"

text \<open>
  What a configuration sets up: the Substream and its data listener, the registration
  with the server, the sandbox container, the loading phase and its downloads.
\<close>

fun sets_up :: "effect \<Rightarrow> bool" where
  "sets_up (Stream_substream s n) = True"
| "sets_up (Substream_on_data s) = True"
| "sets_up (Orchestrate_write n) = True"
| "sets_up (Sandbox_create c) = True"
| "sets_up (Async_each assets deadline) = True"
| "sets_up (Pipe_load asset) = True"
| "sets_up e = False"

text \<open>The ids of the RPC requests written on the Substream, in order.\<close>

fun call_ids :: "effect list \<Rightarrow> jsstring list" where
  "call_ids [] = []"
| "call_ids (Substream_write s (Rpc_request method args ident) # es) = ident # call_ids es"
| "call_ids (e # es) = call_ids es"

section \<open>The server's side of a template\<close>

text \<open>
  Modelled from the spec: the escaping step that \<open>parse\<close> undoes is the server's and not
  part of this file (spec 8: escaped backslash sequences collapse to the escaped
  character). An escaped text is the text with a backslash put before the code units the
  server marks, and before every backslash.
\<close>

definition escaped :: "(bool \<times> 16 word) list \<Rightarrow> jsstring" where
  "escaped marked =
     concat (map (\<lambda>(mark, c). if mark \<or> c = backslash then [backslash, c] else [c]) marked)"

text \<open>
  Modelled from the spec: the marker comment of spec 8. The escaped text is wrapped in one
  code unit on each side and sent as the value of a comment.
\<close>

definition wrapped :: "16 word \<Rightarrow> jsstring \<Rightarrow> 16 word \<Rightarrow> jsstring" where
  "wrapped opening s closing = opening # s @ [closing]"

section \<open>A page with the pagelet hero\<close>

setup_lifting type_definition_method_name

instantiation method_name :: equal
begin

lift_definition equal_method_name :: "method_name \<Rightarrow> method_name \<Rightarrow> bool" is "(=)" .

instance
  by standard (transfer, simp)

end

text \<open>The method name with the given text (the empty name for a text outside the type).\<close>

lift_definition rpc_name :: "jsstring \<Rightarrow> method_name"
  is "\<lambda>s. if s \<in> set own_properties then [] else s"
  by (simp add: own_properties_def lit_def)

text \<open>
  The document holds the placeholder of the pagelet and the element with its template,
  \<open><b>1\-2</b>\<close> between two bars in a comment. The browser has no
  \<open>querySelectorAll\<close>.
\<close>

definition page_document :: dom where
  "page_document =
     \<lparr>elem = (\<lambda>i. if i = 0
               then \<lparr>attributes = [(lit ''data-pagelet'', lit ''hero'')], parentNode = True,
                     childNodes = [Other 7]\<rparr>
               else \<lparr>attributes = [(lit ''data-pagelet-fragment'', lit ''hero'')],
                     parentNode = True,
                     childNodes = [Comment (lit ''|<b>1'' @ [backslash] @ lit ''-2</b>|'')]\<rparr>),
      everything = [0, 1]\<rparr>"

definition old_browser :: browser where
  "old_browser = \<lparr>querySelectorAll = None, innerHTML = (\<lambda>html. [Other 0])\<rparr>"

definition page :: world where
  "page =
     \<lparr>this = Pagelet, document = page_document, host = old_browser,
      IEV = None, inherited = map lit [''toString'', ''valueOf'', ''hasOwnProperty''],
      fresh = 0, trace = []\<rparr>"

definition settings :: config where
  "settings =
     \<lparr>d_id = String (lit ''x1''), d_remove = Undefined, d_css = Some [lit ''a.css''],
      d_js = Some [lit ''b.js''], d_run = String (lit ''go()''),
      d_rpc = Some [rpc_name (lit ''foo'')], d_data = Undefined, d_timeout = Undefined\<rparr>"

definition hero :: world where
  "hero = configure (lit ''hero'') settings page"

text \<open>The same pagelet with a listener for \<open>error\<close> that the page has put on it.\<close>

definition watched :: world where
  "watched =
     hero\<lparr>this := (this hero)
             \<lparr>listeners := listeners (this hero) @ [Listener (lit ''error'') (Callback 9) False]\<rparr>\<rparr>"



section \<open>How the operations change the state\<close>

lemma new_effects_append: "trace w' = trace w @ xs \<Longrightarrow> new_effects w w' = xs"
  by (simp add: new_effects_def)

lemma fold_logged_trace: "trace (fold (\<lambda>x. logged (f x)) xs w) = trace w @ map f xs"
  by (induction xs arbitrary: w) (simp_all add: logged_def)

lemma fold_logged_other [simp]:
  "this (fold (\<lambda>x. logged (f x)) xs w) = this w"
  "fresh (fold (\<lambda>x. logged (f x)) xs w) = fresh w"
  "document (fold (\<lambda>x. logged (f x)) xs w) = document w"
  "host (fold (\<lambda>x. logged (f x)) xs w) = host w"
  "inherited (fold (\<lambda>x. logged (f x)) xs w) = inherited w"
  "IEV (fold (\<lambda>x. logged (f x)) xs w) = IEV w"
  by (induction xs arbitrary: w) (simp_all add: logged_def)

subsection \<open>Listeners\<close>

lemma call_ids_remove_listener: "call_ids (map (\<lambda>root. Remove_listener root k) roots) = []"
  by (induction roots) simp_all

lemma listener_effects_silent:
  "filter is_emission (listener_effects p h args) = []"
  "filter releases (listener_effects p h args) = []"
  "filter sets_up (listener_effects p h args) = []"
  "call_ids (listener_effects p h args) = []"
  by (cases h; simp add: listener_effects_def filter_empty_conv call_ids_remove_listener)+

lemma listeners_silent:
  "filter is_emission (concat (map (\<lambda>l. listener_effects p (f l) args) ls)) = []"
  "filter releases (concat (map (\<lambda>l. listener_effects p (f l) args) ls)) = []"
  "filter sets_up (concat (map (\<lambda>l. listener_effects p (f l) args) ls)) = []"
  by (induction ls) (simp_all add: listener_effects_silent)

lemma calls_of_listeners:
  "filter is_call (concat (map (\<lambda>l. listener_effects p (l_fn l) args)
                             (filter (\<lambda>l. l_event l = ev) ls))) =
   map (\<lambda>c. Called c args) (callbacks ev ls)"
  by (induction ev ls rule: callbacks.induct) (simp_all add: listener_effects_def filter_empty_conv)



lemma trace_emit:
  "trace (emit ev args w) =
     trace w @ Emitted Pagelet_scope ev args
       # concat (map (\<lambda>l. listener_effects (this w) (l_fn l) args)
                   (filter (\<lambda>l. l_event l = ev) (listeners (this w))))"
  by (simp add: emit_def Let_def)

lemma emit_fields [simp]:
  "this (emit ev args w) =
     (this w)\<lparr>listeners := filter (\<lambda>l. \<not> (l_event l = ev \<and> l_once l)) (listeners (this w))\<rparr>"
  "document (emit ev args w) = document w"
  "host (emit ev args w) = host w"
  "IEV (emit ev args w) = IEV w"
  "inherited (emit ev args w) = inherited w"
  "fresh (emit ev args w) = fresh w"
  by (simp_all add: emit_def Let_def)

lemma calls_of_emit:
  "filter is_call (new_effects w (emit ev args w)) =
     map (\<lambda>c. Called c args) (callbacks ev (listeners (this w)))"
  by (simp add: new_effects_def trace_emit calls_of_listeners)

lemma trace_broadcast:
  "trace (broadcast ev args w) =
     trace w @ Emitted Pagelet_scope ev args
       # concat (map (\<lambda>l. listener_effects (this w) (l_fn l) args)
                   (filter (\<lambda>l. l_event l = ev) (listeners (this w))))
       @ [Emitted Page_scope (name_text (name (this w)) @ lit ''::'' @ ev) (This # args)]"
  by (simp add: broadcast_def Let_def logged_def trace_emit)

lemma broadcast_fields [simp]:
  "this (broadcast ev args w) =
     (this w)\<lparr>listeners := filter (\<lambda>l. \<not> (l_event l = ev \<and> l_once l)) (listeners (this w))\<rparr>"
  "document (broadcast ev args w) = document w"
  "host (broadcast ev args w) = host w"
  "IEV (broadcast ev args w) = IEV w"
  "inherited (broadcast ev args w) = inherited w"
  "fresh (broadcast ev args w) = fresh w"
  by (simp_all add: broadcast_def Let_def logged_def)

subsection \<open>destroy\<close>

lemma fold_destroy_root [simp]:
  "this (fold destroy_root roots w) = this w"
  "trace (fold destroy_root roots w) = trace w"
  "inherited (fold destroy_root roots w) = inherited w"
  by (induction roots arbitrary: w) (simp_all add: destroy_root_def Let_def)

lemma fold_destroy_root_detaches:
  "root \<in> set roots \<or> \<not> parentNode (elem (document w) root) \<Longrightarrow>
   \<not> parentNode (elem (document (fold destroy_root roots w)) root)"
proof (induction roots arbitrary: w)
  case Nil
  then show ?case by simp
next
  case (Cons r roots)
  have "root \<in> set roots \<or> \<not> parentNode (elem (document (destroy_root r w)) root)"
    using Cons.prems by (auto simp: destroy_root_def Let_def)
  then show ?case
    using Cons.IH [of "destroy_root r w"] by simp
qed

lemma nuke_fields [simp]:
  "this (nuke a w) =
     (this w)\<lparr>stubs := (if in_prototype w a then stubs (this w) else (stubs (this w))(a := None))\<rparr>"
  "trace (nuke a w) = trace w"
  "document (nuke a w) = document w"
  "inherited (nuke a w) = inherited w"
  "in_prototype (nuke a w) m = in_prototype w m"
  by (simp_all add: nuke_def in_prototype_def)

lemma fold_nuke_fields [simp]:
  "trace (fold nuke ms w) = trace w"
  "document (fold nuke ms w) = document w"
  "inherited (fold nuke ms w) = inherited w"
  "in_prototype (fold nuke ms w) m = in_prototype w m"
  by (induction ms arbitrary: w) simp_all

lemma fold_nuke_this [simp]:
  "this (fold nuke ms w) =
     (this w)\<lparr>stubs := (\<lambda>m. if m \<in> set ms \<and> \<not> in_prototype w m then None
                               else stubs (this w) m)\<rparr>"
proof (induction ms arbitrary: w)
  case Nil
  show ?case by simp
next
  case (Cons a ms)
  show ?case
    by (simp add: Cons.IH) (auto simp: fun_eq_iff)
qed

lemma trace_destroy:
  "trace (destroy r w) =
     trace w @ Emitted Pagelet_scope (lit ''destroy'') []
       # concat (map (\<lambda>l. listener_effects (this w) (l_fn l) [])
                   (filter (\<lambda>l. l_event l = lit ''destroy'') (listeners (this w))))
       @ (case container (this w) of None \<Rightarrow> [] | Some c \<Rightarrow> [Sandbox_kill c])
       @ (case substream (this w) of None \<Rightarrow> [] | Some s \<Rightarrow> [Substream_end s End_packet])
       @ [Pipe_free]"
  by (simp add: destroy_def Let_def each_def array_def logged_def trace_emit
      split: option.splits)

lemma destroy_clears:
  "container (this (destroy r w)) = None"
  "placeholders (this (destroy r w)) = None"
  by (simp_all add: destroy_def Let_def each_def array_def logged_def split: option.splits)

lemma destroy_stubs:
  "stubs (this (destroy r w)) m = Some k \<Longrightarrow> stubs (this w) m = Some k"
  by (simp add: destroy_def Let_def each_def array_def logged_def
      split: option.splits if_splits)

lemma destroy_detaches:
  assumes "placeholders (this w) = Some roots" and "root \<in> set roots"
  shows "\<not> parentNode (elem (document (destroy r w)) root)"
proof -
  have "document (destroy r w) = document (fold destroy_root roots (emit (lit ''destroy'') [] w))"
    using assms(1)
    by (simp add: destroy_def Let_def each_def array_def logged_def split: option.splits)
  then show ?thesis
    using assms(2) fold_destroy_root_detaches [of root roots] by simp
qed

subsection \<open>configure\<close>

lemma rpc_stub_fields [simp]:
  "this (rpc_stub a w) =
     (this w)\<lparr>stubs := (if in_prototype w a then stubs (this w) else (stubs (this w))(a \<mapsto> 0))\<rparr>"
  "trace (rpc_stub a w) = trace w"
  "fresh (rpc_stub a w) = fresh w"
  "document (rpc_stub a w) = document w"
  "host (rpc_stub a w) = host w"
  "IEV (rpc_stub a w) = IEV w"
  "inherited (rpc_stub a w) = inherited w"
  "in_prototype (rpc_stub a w) m = in_prototype w m"
  by (simp_all add: rpc_stub_def in_prototype_def)

lemma fold_rpc_stub_fields [simp]:
  "trace (fold rpc_stub ms w) = trace w"
  "fresh (fold rpc_stub ms w) = fresh w"
  "document (fold rpc_stub ms w) = document w"
  "host (fold rpc_stub ms w) = host w"
  "IEV (fold rpc_stub ms w) = IEV w"
  "inherited (fold rpc_stub ms w) = inherited w"
  "in_prototype (fold rpc_stub ms w) m = in_prototype w m"
  by (induction ms arbitrary: w) simp_all

lemma fold_rpc_stub_this [simp]:
  "this (fold rpc_stub ms w) =
     (this w)\<lparr>stubs := (\<lambda>m. if m \<in> set ms \<and> \<not> in_prototype w m then Some 0
                               else stubs (this w) m)\<rparr>"
proof (induction ms arbitrary: w)
  case Nil
  show ?case by simp
next
  case (Cons a ms)
  show ?case
    by (simp add: Cons.IH) (auto simp: fun_eq_iff)
qed

lemma submit_fields [simp]:
  "this (submit w) =
     (this w)\<lparr>listeners :=
                 listeners (this w) @ [Listener (lit ''destroy'') (Destroy_hook (fresh w)) True]\<rparr>"
  "trace (submit w) =
     trace w @ map (\<lambda>root. Add_listener root (fresh w)) (array (placeholders (this w)))"
  "fresh (submit w) = Suc (fresh w)"
  "document (submit w) = document w"
  "host (submit w) = host w"
  "IEV (submit w) = IEV w"
  "inherited (submit w) = inherited w"
  by (simp_all add: submit_def Let_def once_def each_def fold_logged_trace)

lemma async_each_fields [simp]:
  "this (async_each assets deadline w) = this w"
  "document (async_each assets deadline w) = document w"
  "host (async_each assets deadline w) = host w"
  "IEV (async_each assets deadline w) = IEV w"
  "inherited (async_each assets deadline w) = inherited w"
  "fresh (async_each assets deadline w) = fresh w"
  "trace (async_each assets deadline w) =
     trace w @ Async_each assets deadline # map Pipe_load assets"
  by (simp_all add: async_each_def fold_logged_trace) (simp_all add: logged_def)

lemma filter_sets_up_listen [simp]:
  "filter sets_up (map (\<lambda>root. Add_listener root k) roots) = []"
  by (induction roots) simp_all

lemma filter_sets_up_load [simp]:
  "filter sets_up (map Pipe_load assets) = map Pipe_load assets"
  by (induction assets) simp_all


lemma configure_fields:
  assumes "\<not> truthy (d_remove d)"
  shows "name (this (configure n d w)) = Some n"
    and "placeholders (this (configure n d w)) =
           Some (dollar (host w) (document w) (lit ''data-pagelet'') (Some n))"
    and "substream (this (configure n d w)) = Some (Suc (fresh w))"
    and "container (this (configure n d w)) = Some (Suc (Suc (fresh w)))"
    and "css (this (configure n d w)) = Some (array (d_css d))"
    and "js (this (configure n d w)) = Some (array (d_js d))"
    and "run (this (configure n d w)) = d_run d"
    and "code (this (configure n d w)) = code (this w)"
    and "stubs (this (configure n d w)) m =
           (if m \<in> set (array (d_rpc d)) \<and> \<not> in_prototype w m then Some 0
            else stubs (this w) m)"
    and "listeners (this (configure n d w)) =
           filter (\<lambda>l. \<not> (l_event l = lit ''configured'' \<and> l_once l))
             (listeners (this w) @ [Listener (lit ''destroy'') (Destroy_hook (fresh w)) True])"
    and "fresh (configure n d w) = Suc (Suc (Suc (fresh w)))"
    and "document (configure n d w) = document w"
    and "host (configure n d w) = host w"
    and "inherited (configure n d w) = inherited w"
    and "IEV (configure n d w) = IEV w"
  using assms
  by (simp_all add: configure_def Let_def each_def logged_def in_prototype_def)

subsection \<open>render and parse\<close>

lemma remove_children_empty [simp]: "remove_children cs = []"
  by (induction cs) simp_all

lemma move_children_append [simp]: "move_children cs fragment = fragment @ cs"
  by (induction cs arbitrary: fragment) simp_all

lemma render_root_fields [simp]:
  "this (render_root html root w) = this w"
  "trace (render_root html root w) = trace w"
  "host (render_root html root w) = host w"
  "IEV (render_root html root w) = IEV w"
  by (simp_all add: render_root_def Let_def)

lemma render_root_childNodes:
  "childNodes (elem (document (render_root html root w)) r) =
     (if r = root then innerHTML (host w) html else childNodes (elem (document w) r))"
  by (simp add: render_root_def Let_def split: option.splits)

lemma fold_render_root_fields [simp]:
  "this (fold (render_root html) roots w) = this w"
  "trace (fold (render_root html) roots w) = trace w"
  "host (fold (render_root html) roots w) = host w"
  by (induction roots arbitrary: w) simp_all

lemma fold_render_root_childNodes:
  "childNodes (elem (document (fold (render_root html) roots w)) r) =
     (if r \<in> set roots then innerHTML (host w) html else childNodes (elem (document w) r))"
  by (induction roots arbitrary: w) (simp_all add: render_root_childNodes)

lemma replace_escapes_plain:
  "c \<noteq> backslash \<Longrightarrow> replace_escapes (c # cs) = c # replace_escapes cs"
  by (cases cs) simp_all

lemma replace_escapes_escaped: "replace_escapes (escaped marked) = map snd marked"
  by (induction marked) (auto simp: escaped_def replace_escapes_plain)

lemma substring_wrapped:
  "substring (wrapped opening s closing) 1 (int (length (wrapped opening s closing)) - 1) = s"
  by (simp add: substring_def wrapped_def Let_def)

subsection \<open>The loading phase\<close>

lemma async_result_failure:
  "k < n \<Longrightarrow> s = Asset_failed e \<or> s = Deadline e \<Longrightarrow>
   async_result n (replicate k Asset_loaded @ s # rest) = Some (Object e)"
proof (induction k arbitrary: n)
  case 0
  then show ?case by (cases n) auto
next
  case (Suc k)
  then show ?case by (cases n) auto
qed

subsection \<open>Calls of a generated RPC method\<close>


subsection \<open>The page\<close>

lemma page_facts:
  "fresh page = 0" "listeners (this page) = []" "stubs (this page) = Map.empty"
  "code (this page) = Undefined" "host page = old_browser" "container (this page) = None"
  "document page = page_document" "IEV page = None" "trace page = []"
  "inherited page = map lit [''toString'', ''valueOf'', ''hasOwnProperty'']"
  by (simp_all add: page_def Pagelet_def)

lemma settings_facts:
  "\<not> truthy (d_remove settings)" "array (d_css settings) = [lit ''a.css'']"
  "array (d_js settings) = [lit ''b.js'']" "d_run settings = String (lit ''go()'')"
  "array (d_rpc settings) = [rpc_name (lit ''foo'')]" "\<not> truthy (d_timeout settings)"
  by (simp_all add: settings_def array_def)

lemma foo_text: "Rep_method_name (rpc_name (lit ''foo'')) = lit ''foo''"
  by (simp add: rpc_name.rep_eq own_properties_def lit_def)

lemma foo_installed:
  "\<not> in_prototype page (rpc_name (lit ''foo''))"
  "\<not> in_prototype hero (rpc_name (lit ''foo''))"
  by (simp_all add: in_prototype_def foo_text hero_def configure_fields settings_facts
        page_facts Pagelet_prototype_def)
     (simp_all add: lit_def)

lemma page_queries:
  "dollar old_browser page_document (lit ''data-pagelet'') (Some (lit ''hero'')) = [0]"
  "dollar old_browser page_document (lit ''data-pagelet-fragment'') (Some (lit ''hero'')) = [1]"
  "innerHTML old_browser html = [Other 0]"
  by (simp_all add: dollar_def old_browser_def page_document_def) (simp_all add: lit_def)

lemma hero_facts:
  "name (this hero) = Some (lit ''hero'')"
  "placeholders (this hero) = Some [0]"
  "fresh hero = 3"
  "container (this hero) = Some 2"
  "substream (this hero) = Some 1"
  "stubs (this hero) (rpc_name (lit ''foo'')) = Some 0"
  "listeners (this hero) = [Listener (lit ''destroy'') (Destroy_hook 0) True]"
  "css (this hero) = Some [lit ''a.css'']"
  "js (this hero) = Some [lit ''b.js'']"
  "run (this hero) = String (lit ''go()'')"
  "code (this hero) = Undefined"
  "document hero = page_document"
  "host hero = old_browser"
  "IEV hero = None"
  by (simp_all add: hero_def configure_fields settings_facts page_facts page_queries
        foo_installed)
     (simp_all add: lit_def)



lemma parse_emit [simp]: "parse (emit ev args w) = parse w"
  by (simp add: parse_def cong: list.case_cong)

lemma template:
  "childNodes (elem page_document (Suc 0)) =
     [Comment (wrapped 124
        (escaped (map (Pair False) (lit ''<b>1'') @ (True, 45) # map (Pair False) (lit ''2</b>'')))
        124)]"
  by (simp add: page_document_def wrapped_def escaped_def backslash_def lit_def)

lemma template_text:
  "map snd (map (Pair False) (lit ''<b>1'') @ (True, 45) # map (Pair False) (lit ''2</b>''))
      = lit ''<b>1-2</b>''"
  by (simp add: lit_def)

lemma parse_hero: "parse hero = Returns (Some (lit ''<b>1-2</b>''))"
  by (simp add: parse_def hero_facts page_queries template substring_wrapped
      replace_escapes_escaped template_text del: map_append)

subsection \<open>Call ids\<close>














section \<open>The claims\<close>

text \<open>
  C9. For every event name and argument list, \<open>broadcast\<close> emits the event with those
  arguments on the pagelet's own listener scope and then emits
  \<open><pageletName>::<eventName>\<close> on the page's scope, with the pagelet instance as
  first argument followed by the same arguments. These are the only two emissions of the
  call, in this order.
\<close>

theorem broadcast_both_scopes:
  "name (this w) = Some n \<Longrightarrow>
   filter is_emission (new_effects w (broadcast ev args w)) =
     [Emitted Pagelet_scope ev args, Emitted Page_scope (n @ lit ''::'' @ ev) (This # args)]"
proof -
  assume n: "name (this w) = Some n"
  let ?heard = "concat (map (\<lambda>l. listener_effects (this w) (l_fn l) args)
      (filter (\<lambda>l. l_event l = ev) (listeners (this w))))"
  have "new_effects w (broadcast ev args w) =
      Emitted Pagelet_scope ev args # ?heard
        @ [Emitted Page_scope (n @ lit ''::'' @ ev) (This # args)]"
    using n by (intro new_effects_append) (simp add: trace_broadcast name_text_def)
  moreover have "filter is_emission ?heard = []"
    by (rule listeners_silent)
  ultimately show ?thesis
    by simp
qed

text \<open>On the pagelet hero, \<open>broadcast("render", html)\<close> emits \<open>render\<close> and \<open>hero::render\<close>.\<close>

theorem broadcast_both_scopes_witness:
  "name (this hero) = Some (lit ''hero'') \<and>
   filter is_emission
     (new_effects hero (broadcast (lit ''render'') [Val (String (lit ''<p>''))] hero)) =
     [Emitted Pagelet_scope (lit ''render'') [Val (String (lit ''<p>''))],
      Emitted Page_scope (lit ''hero::render'') [This, Val (String (lit ''<p>''))]]"
proof -
  have n: "name (this hero) = Some (lit ''hero'')"
    by (rule hero_facts)
  show ?thesis
    using n broadcast_both_scopes [OF n, of "lit ''render''" "[Val (String (lit ''<p>''))]"]
    by (simp add: lit_def)
qed

text \<open>
  C1, as the source has it. For every pagelet instance and whatever the arguments, the
  first \<open>destroy\<close> kills the sandbox container if there is one and releases the instance
  to the pool once; a second \<open>destroy\<close> kills no container, and releases the instance
  to the pool once more.
\<close>

theorem destroy_twice:
  "filter releases (new_effects w (destroy a w)) =
     (case container (this w) of None \<Rightarrow> [] | Some c \<Rightarrow> [Sandbox_kill c]) @ [Pipe_free] \<and>
   filter releases (new_effects (destroy a w) (destroy b (destroy a w))) = [Pipe_free]"
  by (simp add: new_effects_def trace_destroy destroy_clears listeners_silent
      split: option.splits)

text \<open>Destroying the pagelet hero twice.\<close>

theorem destroy_twice_witness:
  "filter releases (new_effects hero (destroy (Boolean False) hero)) =
     [Sandbox_kill 2, Pipe_free] \<and>
   filter releases
     (new_effects (destroy (Boolean False) hero)
        (destroy (Boolean True) (destroy (Boolean False) hero))) = [Pipe_free]"
  using destroy_twice [of hero "Boolean False" "Boolean True"]
  by (simp add: hero_facts)

text \<open>
  C1 as stated fails: on the configured pagelet of the page, the second \<open>destroy\<close>
  hands the instance to the pool again.
\<close>

theorem destroy_twice_counterexample:
  "Pipe_free \<in> set (new_effects (destroy (Boolean True) hero)
                       (destroy (Boolean True) (destroy (Boolean True) hero)))"
  by (simp add: new_effects_def trace_destroy [of _ "destroy (Boolean True) hero"])




text \<open>
  C3 fails on the source. \<open>configure\<close> stores the client code of the configuration in
  \<open>this.run\<close>, and \<open>initialise\<close> looks for it in \<open>this.code\<close>, which nothing assigns. On
  the page, with client code supplied and both assets loaded, the pagelet emits
  \<open>loaded\<close>, renders, broadcasts \<open>initialise\<close> and returns: these are all the effects,
  and the sandbox is not among them.
\<close>

theorem client_code_not_run:
  "d_run settings = String (lit ''go()'') \<and>
   run (this hero) = String (lit ''go()'') \<and>
   code (this hero) = Undefined \<and>
   fst (loading_phase [Asset_loaded, Asset_loaded] hero) = Returns () \<and>
   new_effects hero (snd (loading_phase [Asset_loaded, Asset_loaded] hero)) =
     [Emitted Pagelet_scope (lit ''loaded'') [],
      Emitted Pagelet_scope (lit ''render'') [Val (String (lit ''<b>1-2</b>''))],
      Emitted Page_scope (lit ''hero::render'') [This, Val (String (lit ''<b>1-2</b>''))],
      Emitted Pagelet_scope (lit ''initialise'') [],
      Emitted Page_scope (lit ''hero::initialise'') [This]]"
proof -
  have l: "loading_phase [Asset_loaded, Asset_loaded] hero = done_callback Undefined hero"
    by (simp add: loading_phase_def hero_facts array_def)
  have h: "lit ''<b>1-2</b>'' \<noteq> []"
    by (simp add: lit_def)
  have d: "done_callback Undefined hero =
      initialise (broadcast (lit ''render'') [Val (String (lit ''<b>1-2</b>''))]
        (render_root (lit ''<b>1-2</b>'') 0 (emit (lit ''loaded'') [] hero)))"
    by (simp add: done_callback_def parse_hero render_def hero_facts each_def array_def h)
  have e: "lit ''destroy'' \<noteq> lit ''loaded''" "lit ''destroy'' \<noteq> lit ''render''"
    "lit ''destroy'' \<noteq> lit ''initialise''"
    by (simp_all add: lit_def)
  have n: "lit ''hero'' @ lit ''::'' @ lit ''render'' = lit ''hero::render''"
    "lit ''hero'' @ lit ''::'' @ lit ''initialise'' = lit ''hero::initialise''"
    by (simp_all add: lit_def)
  show ?thesis
    by (simp add: l d initialise_def Let_def settings_facts hero_facts new_effects_def
        trace_broadcast trace_emit e n name_text_def)
qed

text \<open>
  C4. When an asset of the loading phase fails, or the deadline passes, before all
  assets have loaded, the completion callback emits \<open>error\<close> with that error on the
  pagelet, and this is the only emission: nothing is rendered, nothing initialised, the
  document is left as it was. Every function listening for \<open>error\<close> on the pagelet, such
  as one the page has put there, is called with the error, and no other function is
  called.
\<close>

theorem asset_failure:
  "k < length (array (css (this w)) @ array (js (this w))) \<Longrightarrow>
   s = Asset_failed e \<or> s = Deadline e \<Longrightarrow>
   fst (loading_phase (replicate k Asset_loaded @ s # rest) w) = Returns () \<and>
   filter is_emission
     (new_effects w (snd (loading_phase (replicate k Asset_loaded @ s # rest) w))) =
     [Emitted Pagelet_scope (lit ''error'') [Val (Object e)]] \<and>
   filter is_call
     (new_effects w (snd (loading_phase (replicate k Asset_loaded @ s # rest) w))) =
     map (\<lambda>c. Called c [Val (Object e)]) (callbacks (lit ''error'') (listeners (this w))) \<and>
   filter sets_up
     (new_effects w (snd (loading_phase (replicate k Asset_loaded @ s # rest) w))) = [] \<and>
   document (snd (loading_phase (replicate k Asset_loaded @ s # rest) w)) = document w"
proof -
  assume "k < length (array (css (this w)) @ array (js (this w)))"
    and "s = Asset_failed e \<or> s = Deadline e"
  then have "loading_phase (replicate k Asset_loaded @ s # rest) w =
      (Returns (), emit (lit ''error'') [Val (Object e)] w)"
    using async_result_failure [of k "length (array (css (this w)) @ array (js (this w)))" s e rest]
    by (simp add: loading_phase_def done_callback_def)
  then show ?thesis
    by (simp add: calls_of_emit) (simp add: new_effects_def trace_emit listeners_silent)
qed

text \<open>The style sheet loads, the script fails: the listener of the page is told.\<close>

theorem asset_failure_witness:
  "(1::nat) < length (array (css (this watched)) @ array (js (this watched))) \<and>
   fst (loading_phase [Asset_loaded, Asset_failed 5] watched) = Returns () \<and>
   filter is_emission (new_effects watched (snd (loading_phase [Asset_loaded, Asset_failed 5] watched))) =
     [Emitted Pagelet_scope (lit ''error'') [Val (Object 5)]] \<and>
   filter is_call (new_effects watched (snd (loading_phase [Asset_loaded, Asset_failed 5] watched))) =
     [Called 9 [Val (Object 5)]]"
proof -
  have k: "(1::nat) < length (array (css (this watched)) @ array (js (this watched)))"
    by (simp add: watched_def hero_facts array_def)
  have l: "lit ''destroy'' \<noteq> lit ''error''"
    by (simp add: lit_def)
  have c: "callbacks (lit ''error'') (listeners (this watched)) = [9]"
    by (simp add: watched_def hero_facts l)
  show ?thesis
    using k asset_failure [OF k, of "Asset_failed 5" 5 "[]"]
    by (simp add: c)
qed






text \<open>
  C7. For every text, every choice of the code units the server escapes, and every pair
  of wrapping code units: when the first element with the pagelet's name as
  \<open>data-pagelet-fragment\<close> has as first child a comment that holds the escaped text
  between the two wrapping code units, \<open>parse\<close> returns the text itself.
\<close>

theorem parse_round_trip:
  "dollar (host w) (document w) (lit ''data-pagelet-fragment'') (name (this w)) = node # nodes \<Longrightarrow>
   childNodes (elem (document w) node) =
     Comment (wrapped opening (escaped marked) closing) # siblings \<Longrightarrow>
   parse w = Returns (Some (map snd marked))"
proof -
  assume found: "dollar (host w) (document w) (lit ''data-pagelet-fragment'') (name (this w))
      = node # nodes"
    and comment: "childNodes (elem (document w) node) =
      Comment (wrapped opening (escaped marked) closing) # siblings"
  let ?comment = "wrapped opening (escaped marked) closing"
  have "parse w = Returns (Some (replace_escapes
      (substring ?comment 1 (int (length ?comment) - 1))))"
    by (simp add: parse_def found comment)
  also have "substring ?comment 1 (int (length ?comment) - 1) = escaped marked"
    by (rule substring_wrapped)
  also have "replace_escapes (escaped marked) = map snd marked"
    by (rule replace_escapes_escaped)
  finally show ?thesis .
qed

text \<open>The template of the pagelet hero, with its escaped hyphen, comes back as \<open><b>1-2</b>\<close>.\<close>

theorem parse_round_trip_witness:
  "dollar (host hero) (document hero) (lit ''data-pagelet-fragment'') (name (this hero)) = [1] \<and>
   childNodes (elem (document hero) 1) =
     [Comment (wrapped 124
        (escaped (map (Pair False) (lit ''<b>1'') @ (True, 45) # map (Pair False) (lit ''2</b>'')))
        124)] \<and>
   parse hero = Returns (Some (lit ''<b>1-2</b>''))"
proof -
  have d: "dollar (host hero) (document hero) (lit ''data-pagelet-fragment'') (name (this hero)) = [1]"
    by (simp add: hero_facts page_queries)
  have c: "childNodes (elem (document hero) 1) =
     [Comment (wrapped 124
        (escaped (map (Pair False) (lit ''<b>1'') @ (True, 45) # map (Pair False) (lit ''2</b>'')))
        124)]"
    using template by (simp add: hero_facts)
  show ?thesis
    using d c parse_round_trip [OF d c] by (simp only: template_text)
qed

text \<open>
  C8. For every configuration with the remove flag set, \<open>configure\<close> goes straight to
  \<open>destroy\<close>: it opens no Substream, writes no registration, creates no container and
  starts no loading phase; it installs no RPC stub; it kills the container a former
  configuration left, releases the instance to the pool, clears the placeholders of the
  instance, and leaves every placeholder it found without a parent node.
\<close>

theorem configure_remove:
  "truthy (d_remove d) \<Longrightarrow>
   filter sets_up (new_effects w (configure n d w)) = [] \<and>
   filter releases (new_effects w (configure n d w)) =
     (case container (this w) of None \<Rightarrow> [] | Some c \<Rightarrow> [Sandbox_kill c]) @ [Pipe_free] \<and>
   (\<forall>m k. stubs (this (configure n d w)) m = Some k \<longrightarrow> stubs (this w) m = Some k) \<and>
   placeholders (this (configure n d w)) = None \<and>
   (\<forall>root \<in> set (dollar (host w) (document w) (lit ''data-pagelet'') (Some n)).
      \<not> parentNode (elem (document (configure n d w)) root))"
proof -
  assume remove: "truthy (d_remove d)"
  define w1 where
    "w1 = w\<lparr>this := (this w)
              \<lparr>placeholders :=
                 Some (dollar (host w) (document w) (lit ''data-pagelet'') (Some n)),
               id' := d_id d, name := Some n\<rparr>\<rparr>"
  have c: "configure n d w = destroy (Boolean True) w1"
    using remove by (simp add: configure_def w1_def)
  have t: "trace w1 = trace w" "container (this w1) = container (this w)"
    "substream (this w1) = substream (this w)" "stubs (this w1) = stubs (this w)"
    "listeners (this w1) = listeners (this w)"
    "placeholders (this w1) =
       Some (dollar (host w) (document w) (lit ''data-pagelet'') (Some n))"
    by (simp_all add: w1_def)
  have "filter sets_up (new_effects w (configure n d w)) = []"
    by (simp add: c new_effects_def trace_destroy t listeners_silent split: option.splits)
  moreover have "filter releases (new_effects w (configure n d w)) =
      (case container (this w) of None \<Rightarrow> [] | Some c \<Rightarrow> [Sandbox_kill c]) @ [Pipe_free]"
    by (simp add: c new_effects_def trace_destroy t listeners_silent split: option.splits)
  moreover have "\<forall>m k. stubs (this (configure n d w)) m = Some k \<longrightarrow> stubs (this w) m = Some k"
    using destroy_stubs [of "Boolean True" w1] by (simp add: c t)
  moreover have "placeholders (this (configure n d w)) = None"
    by (simp add: c destroy_clears)
  moreover have "\<forall>root \<in> set (dollar (host w) (document w) (lit ''data-pagelet'') (Some n)).
      \<not> parentNode (elem (document (configure n d w)) root)"
    using destroy_detaches [OF t(6)] by (simp add: c)
  ultimately show ?thesis
    by blast
qed

text \<open>The pagelet hero, configured once more with \<open>remove: true\<close>.\<close>

theorem configure_remove_witness:
  "truthy (d_remove (settings\<lparr>d_remove := Boolean True\<rparr>)) \<and>
   0 \<in> set (dollar (host hero) (document hero) (lit ''data-pagelet'') (Some (lit ''hero''))) \<and>
   filter sets_up
     (new_effects hero (configure (lit ''hero'') (settings\<lparr>d_remove := Boolean True\<rparr>) hero)) = [] \<and>
   filter releases
     (new_effects hero (configure (lit ''hero'') (settings\<lparr>d_remove := Boolean True\<rparr>) hero)) =
     [Sandbox_kill 2, Pipe_free] \<and>
   \<not> parentNode
       (elem (document (configure (lit ''hero'') (settings\<lparr>d_remove := Boolean True\<rparr>) hero)) 0)"
proof -
  have r: "truthy (d_remove (settings\<lparr>d_remove := Boolean True\<rparr>))"
    by simp
  show ?thesis
    using r configure_remove [OF r, of hero "lit ''hero''"]
    by (simp add: hero_facts page_queries)
qed

text \<open>
  C10, as the source has it. On an instance whose placeholders are bound to a list,
  \<open>render\<close> returns false and does nothing when the html is absent or empty or the list
  is empty; otherwise it puts the nodes parsed from the html in the place of the content
  of every placeholder, broadcasts \<open>render\<close> with the html, and returns true. On an
  instance whose placeholders are undefined or null it throws.
\<close>

theorem render_result:
  "(case placeholders (this w) of
      None \<Rightarrow> render html w = (Throws TypeError, w)
    | Some roots \<Rightarrow>
        (case html of
           None \<Rightarrow> render html w = (Returns False, w)
         | Some h \<Rightarrow>
             if roots = [] \<or> h = [] then render html w = (Returns False, w)
             else fst (render html w) = Returns True \<and>
                  filter is_emission (new_effects w (snd (render html w))) =
                    [Emitted Pagelet_scope (lit ''render'') [Val (String h)],
                     Emitted Page_scope (name_text (name (this w)) @ lit ''::'' @ lit ''render'')
                       [This, Val (String h)]] \<and>
                  (\<forall>root \<in> set roots.
                     childNodes (elem (document (snd (render html w))) root) =
                       innerHTML (host w) h)))"
  by (simp add: render_def each_def array_def new_effects_def trace_broadcast listeners_silent
      fold_render_root_childNodes split: option.splits)

text \<open>Rendering \<open><p>\<close> into the placeholder of the pagelet hero.\<close>

theorem render_result_witness:
  "placeholders (this hero) = Some [0] \<and>
   fst (render (Some (lit ''<p>'')) hero) = Returns True \<and>
   filter is_emission (new_effects hero (snd (render (Some (lit ''<p>'')) hero))) =
     [Emitted Pagelet_scope (lit ''render'') [Val (String (lit ''<p>''))],
      Emitted Page_scope (lit ''hero::render'') [This, Val (String (lit ''<p>''))]] \<and>
   childNodes (elem (document (snd (render (Some (lit ''<p>'')) hero))) 0) = [Other 0]"
proof -
  have h: "lit ''<p>'' \<noteq> []" "lit ''hero'' @ lit ''::'' @ lit ''render'' = lit ''hero::render''"
    by (simp_all add: lit_def)
  show ?thesis
    using render_result [where w = hero and html = "Some (lit ''<p>'')"]
    by (simp add: hero_facts page_queries name_text_def h)
qed

text \<open>
  C10 as stated fails: the destroyed pagelet has no placeholders and is given no html,
  and \<open>render\<close> does not return false, it throws.
\<close>

theorem render_counterexample:
  "fst (render None (destroy (Boolean True) hero)) = Throws TypeError"
  by (simp add: render_def destroy_clears)

end
